theory Spec2Isabelle
  imports Main
begin

section \<open>The block parser of \<^verbatim>\<open>src/blocks/api/parser.js\<close>\<close>

text \<open>
  The module turns the node list of the post grammar into a list of blocks. Its four
  functions are embedded below in the order of the source file. Everything the module
  imports is a collaborator that the embedding either takes as a parameter (the grammar,
  the block type registry, the block factory) or writes out from its documented behaviour
  (\<^verbatim>\<open>String.prototype.trim\<close>, lodash's \<^verbatim>\<open>pickBy\<close>, hpq's \<^verbatim>\<open>parse\<close>).

  A value that a collaborator throws is a value of the type variable \<open>'e\<close>; a call that
  may throw returns \<open>'e + 'a\<close>, with \<open>Inl\<close> for the thrown value. The module has no
  \<^verbatim>\<open>try\<close>, so each \<open>Inl\<close> is passed on unchanged.
\<close>

subsection \<open>Data\<close>

text \<open>
  An attribute object is a mapping from property names to values; the values are opaque
  to the module (type variable \<open>'v\<close>). An argument documented as \<^verbatim>\<open>?Object\<close> is an
  option: \<open>None\<close> is \<^verbatim>\<open>null\<close> or \<^verbatim>\<open>undefined\<close>.
\<close>

type_synonym 'v attrs = "string \<rightharpoonup> 'v"

text \<open>
  An entry of an attribute specification object. \<open>wpBlocksKnownMatcher\<close> is the
  truthiness of the entry's \<^verbatim>\<open>_wpBlocksKnownMatcher\<close> property; \<open>run\<close> is the entry
  called as a matcher on the document built from the source text.
\<close>

record ('v, 'e) matcher =
  wpBlocksKnownMatcher :: bool
  run :: "string \<Rightarrow> 'e + 'v"

text \<open>
  The \<^verbatim>\<open>attributes\<close> property of a block type, by the three cases that
  \<^verbatim>\<open>parseBlockAttributes\<close> tells apart: a function, another truthy value (an object of
  entries, in property order), or a falsy value.
\<close>

datatype ('v, 'e) attribute_spec =
    AttributesFunction "string \<Rightarrow> 'e + 'v attrs"
  | AttributesObject "(string \<times> ('v, 'e) matcher) list"
  | AttributesAbsent

record ('v, 'e) block_type =
  attributes :: "('v, 'e) attribute_spec"
  defaultAttributes :: "'v attrs option"

text \<open>A node of the grammar's output, with the three properties the module reads.\<close>

record 'v block_node =
  blockType :: "string option"
  rawContent :: string
  attrs :: "'v attrs option"

text \<open>
  The imported collaborators. \<open>getUnknownTypeHandler\<close> is the configured name of the
  unknown type handler, \<open>None\<close> when it is not set; the registry is read-only during a
  parse, so both calls of the source see the same value. \<open>createBlock\<close> builds the
  block from its name and attributes; blocks are opaque (type variable \<open>'b\<close>) and are
  objects, hence truthy.
\<close>

record ('v, 'e, 'b) registry =
  grammarParse :: "string \<Rightarrow> 'e + 'v block_node list"
  getBlockType :: "string option \<Rightarrow> ('v, 'e) block_type option"
  getUnknownTypeHandler :: "string option"
  createBlock :: "string option \<Rightarrow> 'v attrs \<Rightarrow> 'b"

subsection \<open>Library functions\<close>

text \<open>
  A character stands for one code unit below \<open>0x100\<close>. The white space and line
  terminator code units of that range are tab, line feed, vertical tab, form feed,
  carriage return, space and no-break space; \<^verbatim>\<open>trim\<close> removes them from both ends.
\<close>

definition is_whitespace :: "char \<Rightarrow> bool" where
  "is_whitespace c = (of_char c \<in> {9, 10, 11, 12, 13, 32, 160 :: nat})"

definition trim :: "string \<Rightarrow> string" where
  "trim s = rev (dropWhile is_whitespace (rev (dropWhile is_whitespace s)))"

text \<open>
  Truthiness of a \<^verbatim>\<open>?String\<close>: \<^verbatim>\<open>null\<close>, \<^verbatim>\<open>undefined\<close> and the empty string are
  falsy.
\<close>

fun truthy :: "string option \<Rightarrow> bool" where
  "truthy None = False"
| "truthy (Some s) = (s \<noteq> [])"

text \<open>Object spread \<^verbatim>\<open>...x\<close>: the own properties of \<open>x\<close>, none for an absent \<open>x\<close>.\<close>

fun spread :: "'v attrs option \<Rightarrow> 'v attrs" where
  "spread None = Map.empty"
| "spread (Some m) = m"

text \<open>
  lodash's \<^verbatim>\<open>pickBy(object, property)\<close> visits the entries in the order of the object
  and copies into a new object those whose value has a truthy property of that name. The
  copy is made by lodash's \<^verbatim>\<open>baseSet\<close>, which refuses to write the keys
  \<^verbatim>\<open>__proto__\<close>, \<^verbatim>\<open>constructor\<close> and \<^verbatim>\<open>prototype\<close>: an entry under one of
  these keys is not in the result, whatever its value.
\<close>

definition refusedKey :: "string \<Rightarrow> bool" where
  "refusedKey key = (key = ''__proto__'' \<or> key = ''constructor'' \<or> key = ''prototype'')"

definition pickBy :: "(string \<times> 'm) list \<Rightarrow> ('m \<Rightarrow> bool) \<Rightarrow> (string \<times> 'm) list" where
  "pickBy object property = filter (\<lambda>(key, val). property val \<and> \<not> refusedKey key) object"

text \<open>
  Modelled from the spec: hpq's \<^verbatim>\<open>parse(source, matchers)\<close> is an external dependency
  and not among the sources. It shall "evaluate each surviving rule against a
  tree/document representation built from \<^verbatim>\<open>rawContent\<close>, producing one mapping entry
  per rule key"; the entries are visited in the order of the object, and a matcher that
  throws ends the call.
\<close>

fun hpqReduce :: "string \<Rightarrow> 'v attrs \<Rightarrow> (string \<times> ('v, 'e) matcher) list \<Rightarrow> 'e + 'v attrs" where
  "hpqReduce source memo [] = Inr memo"
| "hpqReduce source memo ((key, m) # matchers) =
     (case run m source of
        Inl e \<Rightarrow> Inl e
      | Inr v \<Rightarrow> hpqReduce source (memo(key \<mapsto> v)) matchers)"

definition hpqParse :: "string \<Rightarrow> (string \<times> ('v, 'e) matcher) list \<Rightarrow> 'e + 'v attrs" where
  "hpqParse source matchers = hpqReduce source Map.empty matchers"

subsection \<open>\<^verbatim>\<open>parseBlockAttributes\<close> (lines 21 to 38)\<close>

definition parseBlockAttributes :: "string \<Rightarrow> ('v, 'e) block_type \<Rightarrow> 'e + 'v attrs" where
  "parseBlockAttributes raw btype =
     (case attributes btype of
        AttributesFunction f \<Rightarrow> f raw
      | AttributesObject object \<Rightarrow>
          (let knownMatchers = pickBy object wpBlocksKnownMatcher
           in hpqParse raw knownMatchers)
      | AttributesAbsent \<Rightarrow> Inr Map.empty)"

subsection \<open>\<^verbatim>\<open>getBlockAttributes\<close> (lines 48 to 61)\<close>

text \<open>
  On values: the result is the attribute mapping itself. \<open>m ++ n\<close> is \<open>m\<close> overwritten
  by \<open>n\<close>, as the object literal's spreads do from left to right.
\<close>

definition getBlockAttributes ::
  "('v, 'e) block_type option \<Rightarrow> string \<Rightarrow> 'v attrs option \<Rightarrow> 'e + 'v attrs" where
  "getBlockAttributes btype raw delim =
     (case btype of
        None \<Rightarrow> Inr (case delim of Some a \<Rightarrow> a | None \<Rightarrow> Map.empty)
      | Some t \<Rightarrow>
          (case parseBlockAttributes raw t of
             Inl e \<Rightarrow> Inl e
           | Inr extracted \<Rightarrow> Inr (spread delim ++ spread (defaultAttributes t) ++ extracted)))"

text \<open>
  On a store: objects live in a store, an object's address is its index, and a new object
  gets the next free address. The delimiter attributes arrive as an address (or absent)
  and the result is an address. The steps are those of the source: \<^verbatim>\<open>attributes || {}\<close>
  makes an object only for an absent argument; the object literal makes a new object,
  copies the properties of the argument and of the defaults into it, calls
  \<^verbatim>\<open>parseBlockAttributes\<close> and copies its result. The store is returned also when the
  call throws.
\<close>

type_synonym 'v store = "'v attrs list"

definition alloc :: "'v store \<Rightarrow> nat \<times> 'v store" where
  "alloc h = (length h, h @ [Map.empty])"

definition assign :: "nat \<Rightarrow> 'v attrs \<Rightarrow> 'v store \<Rightarrow> 'v store" where
  "assign target props h = h[target := (h ! target) ++ props]"

definition getBlockAttributes_store ::
  "('v, 'e) block_type option \<Rightarrow> string \<Rightarrow> nat option \<Rightarrow> 'v store \<Rightarrow> ('e + nat) \<times> 'v store" where
  "getBlockAttributes_store btype raw delim h =
     (let (attrs0, h0) = (case delim of Some a \<Rightarrow> (a, h) | None \<Rightarrow> alloc h)
      in case btype of
           None \<Rightarrow> (Inr attrs0, h0)
         | Some t \<Rightarrow>
             (let (fresh, h1) = alloc h0;
                  h2 = assign fresh (case delim of Some a \<Rightarrow> h1 ! a | None \<Rightarrow> Map.empty) h1;
                  h3 = assign fresh (spread (defaultAttributes t)) h2
              in case parseBlockAttributes raw t of
                   Inl e \<Rightarrow> (Inl e, h3)
                 | Inr extracted \<Rightarrow> (Inr fresh, assign fresh extracted h3)))"

subsection \<open>\<^verbatim>\<open>createBlockWithFallback\<close> (lines 71 to 97)\<close>

text \<open>
  Lines 73 to 81, the choice of name and type. The third component is the list of the
  names passed to \<^verbatim>\<open>getBlockType\<close>, in call order.
\<close>

definition resolveType ::
  "('v, 'e, 'b) registry \<Rightarrow> string option \<Rightarrow>
     string option \<times> ('v, 'e) block_type option \<times> string option list" where
  "resolveType reg name =
     (let blockName = (if truthy name then name else getUnknownTypeHandler reg);
          btype = getBlockType reg blockName;
          fallbackBlock = getUnknownTypeHandler reg
      in if btype = None
         then (fallbackBlock, getBlockType reg fallbackBlock, [blockName, fallbackBlock])
         else (blockName, btype, [blockName]))"

definition createBlockWithFallback ::
  "('v, 'e, 'b) registry \<Rightarrow> string option \<Rightarrow> string \<Rightarrow> 'v attrs option \<Rightarrow> 'e + 'b option" where
  "createBlockWithFallback reg name raw delim =
     (let (blockName, btype, lookups) = resolveType reg name;
          fallbackBlock = getUnknownTypeHandler reg
      in if btype \<noteq> None \<and> (trim raw \<noteq> [] \<or> blockName \<noteq> fallbackBlock)
         then (case getBlockAttributes btype (trim raw) delim of
                 Inl e \<Rightarrow> Inl e
               | Inr a \<Rightarrow> Inr (Some (createBlock reg blockName a)))
         else Inr None)"

subsection \<open>\<^verbatim>\<open>parseWithGrammar\<close> (lines 105 to 114)\<close>

text \<open>
  Lines 107 and 108: the node is taken apart and handed to
  \<^verbatim>\<open>createBlockWithFallback\<close>.
\<close>

definition nodeBlock :: "('v, 'e, 'b) registry \<Rightarrow> 'v block_node \<Rightarrow> 'e + 'b option" where
  "nodeBlock reg blockNode =
     createBlockWithFallback reg (blockType blockNode) (rawContent blockNode) (attrs blockNode)"

text \<open>The callback of \<^verbatim>\<open>reduce\<close>, run over the nodes from left to right.\<close>

fun reduce :: "('v, 'e, 'b) registry \<Rightarrow> 'b list \<Rightarrow> 'v block_node list \<Rightarrow> 'e + 'b list" where
  "reduce reg memo [] = Inr memo"
| "reduce reg memo (blockNode # nodes) =
     (case nodeBlock reg blockNode of
        Inl e \<Rightarrow> Inl e
      | Inr None \<Rightarrow> reduce reg memo nodes
      | Inr (Some block) \<Rightarrow> reduce reg (memo @ [block]) nodes)"

definition parseWithGrammar :: "('v, 'e, 'b) registry \<Rightarrow> string \<Rightarrow> 'e + 'b list" where
  "parseWithGrammar reg content =
     (case grammarParse reg content of
        Inl e \<Rightarrow> Inl e
      | Inr nodes \<Rightarrow> reduce reg [] nodes)"

subsection \<open>Example data\<close>

text \<open>
  Block types and registries of the scenarios in the specification, used where a
  statement is instantiated. Attribute values are numbers, thrown values are messages,
  and a block is the pair of the constructor's arguments.
\<close>

definition p2_type :: "(nat, string) block_type" where
  "p2_type = \<lparr>attributes = AttributesFunction (\<lambda>raw. Inr [''a'' \<mapsto> 4]),
              defaultAttributes = Some [''a'' \<mapsto> 1]\<rparr>"

definition plain_type :: "(nat, string) block_type" where
  "plain_type = \<lparr>attributes = AttributesAbsent, defaultAttributes = None\<rparr>"

definition echo_type :: "(nat, string) block_type" where
  "echo_type = \<lparr>attributes = AttributesFunction (\<lambda>raw. Inr [''length'' \<mapsto> length raw]),
                defaultAttributes = None\<rparr>"

definition brittle_type :: "(nat, string) block_type" where
  "brittle_type = \<lparr>attributes = AttributesFunction (\<lambda>raw. Inl ''extractor failed''),
                   defaultAttributes = None\<rparr>"

definition p6_object :: "(string \<times> (nat, string) matcher) list" where
  "p6_object =
     [(''tagged'', \<lparr>wpBlocksKnownMatcher = True, run = (\<lambda>source. Inr (length source))\<rparr>),
      (''plain'', \<lparr>wpBlocksKnownMatcher = False, run = (\<lambda>source. Inl ''not a matcher'')\<rparr>)]"

text \<open>A marked rule under a key that \<^verbatim>\<open>pickBy\<close> does not copy, beside a marked rule.\<close>

definition refused_object :: "(string \<times> (nat, string) matcher) list" where
  "refused_object =
     [(''constructor'', \<lparr>wpBlocksKnownMatcher = True, run = (\<lambda>source. Inl ''not copied'')\<rparr>),
      (''tagged'', \<lparr>wpBlocksKnownMatcher = True, run = (\<lambda>source. Inr (length source))\<rparr>)]"

definition refused_type :: "(nat, string) block_type" where
  "refused_type = \<lparr>attributes = AttributesObject refused_object, defaultAttributes = None\<rparr>"

definition p6_type :: "(nat, string) block_type" where
  "p6_type = \<lparr>attributes = AttributesObject p6_object, defaultAttributes = None\<rparr>"

definition failing_object :: "(string \<times> (nat, string) matcher) list" where
  "failing_object =
     [(''first'', \<lparr>wpBlocksKnownMatcher = True, run = (\<lambda>source. Inr 1)\<rparr>),
      (''second'', \<lparr>wpBlocksKnownMatcher = True, run = (\<lambda>source. Inl ''matcher failed'')\<rparr>)]"

definition failing_type :: "(nat, string) block_type" where
  "failing_type = \<lparr>attributes = AttributesObject failing_object, defaultAttributes = None\<rparr>"

definition scenario_types :: "string option \<Rightarrow> (nat, string) block_type option" where
  "scenario_types name =
     (if name = Some ''note'' then Some plain_type
      else if name = Some ''freeform'' then Some plain_type
      else if name = Some ''echo'' then Some echo_type
      else if name = Some ''brittle'' then Some brittle_type
      else if name = Some ''failing'' then Some failing_type
      else None)"

text \<open>A registry whose grammar answers every document with the given nodes.\<close>

definition scenario_registry ::
  "nat block_node list \<Rightarrow> (nat, string, string option \<times> nat attrs) registry" where
  "scenario_registry nodes =
     \<lparr>grammarParse = (\<lambda>content. Inr nodes),
      getBlockType = scenario_types,
      getUnknownTypeHandler = Some ''freeform'',
      createBlock = Pair\<rparr>"

text \<open>The same registry with no unknown type handler set.\<close>

definition bare_registry ::
  "nat block_node list \<Rightarrow> (nat, string, string option \<times> nat attrs) registry" where
  "bare_registry nodes = (scenario_registry nodes)\<lparr>getUnknownTypeHandler := None\<rparr>"

text \<open>A registry whose grammar rejects every document.\<close>

definition rejecting_registry :: "(nat, string, string option \<times> nat attrs) registry" where
  "rejecting_registry = (scenario_registry [])\<lparr>grammarParse := (\<lambda>content. Inl ''syntax error'')\<rparr>"

text \<open>A registry in which only the type of the unknown type handler is registered.\<close>

definition fallback_only_registry ::
  "nat block_node list \<Rightarrow> (nat, string, string option \<times> nat attrs) registry" where
  "fallback_only_registry nodes =
     \<lparr>grammarParse = (\<lambda>content. Inr nodes),
      getBlockType = (\<lambda>name. if name = Some ''freeform'' then Some plain_type else None),
      getUnknownTypeHandler = Some ''freeform'',
      createBlock = Pair\<rparr>"

text \<open>
  Node lists: a named section, a blank freeform span, a section of an unregistered name
  and an empty named section; a section whose extractor throws between two others; a
  section one of whose matchers throws.
\<close>

definition mixed_nodes :: "nat block_node list" where
  "mixed_nodes =
     [\<lparr>blockType = Some ''note'', rawContent = ''hi'', attrs = Some [''pinned'' \<mapsto> 1]\<rparr>,
      \<lparr>blockType = None, rawContent = ''   '', attrs = Some Map.empty\<rparr>,
      \<lparr>blockType = Some ''gallery'', rawContent = ''x'', attrs = Some Map.empty\<rparr>,
      \<lparr>blockType = Some ''note'', rawContent = '''', attrs = Some Map.empty\<rparr>]"

definition brittle_nodes :: "nat block_node list" where
  "brittle_nodes =
     [\<lparr>blockType = Some ''note'', rawContent = ''hi'', attrs = None\<rparr>,
      \<lparr>blockType = Some ''brittle'', rawContent = ''x'', attrs = None\<rparr>,
      \<lparr>blockType = Some ''note'', rawContent = ''y'', attrs = None\<rparr>]"

definition failing_nodes :: "nat block_node list" where
  "failing_nodes =
     [\<lparr>blockType = Some ''note'', rawContent = ''hi'', attrs = None\<rparr>,
      \<lparr>blockType = Some ''failing'', rawContent = ''x'', attrs = None\<rparr>]"

section \<open>Properties\<close>

subsection \<open>Library functions\<close>

lemma pickBy_idem: "pickBy (pickBy object P) P = pickBy object P"
  by (simp add: pickBy_def cong: filter_cong)

lemma hpqReduce_dom:
  "hpqReduce source memo ms = Inr r \<Longrightarrow> dom r = dom memo \<union> fst ` set ms"
  by (induction source memo ms rule: hpqReduce.induct) (auto split: sum.splits)

lemma hpqReduce_returns:
  "\<forall>(key, m) \<in> set ms. \<not> isl (run m source) \<Longrightarrow> \<exists>r. hpqReduce source memo ms = Inr r"
  by (induction source memo ms rule: hpqReduce.induct) (auto split: sum.splits)

lemma hpqReduce_keeps:
  "hpqReduce source memo ms = Inr r \<Longrightarrow> key \<notin> fst ` set ms \<Longrightarrow> r key = memo key"
  by (induction source memo ms rule: hpqReduce.induct) (auto split: sum.splits)

lemma hpqReduce_value:
  "hpqReduce source memo ms = Inr r \<Longrightarrow> distinct (map fst ms) \<Longrightarrow> (key, m) \<in> set ms \<Longrightarrow>
     run m source = Inr v \<Longrightarrow> r key = Some v"
proof (induction source memo ms rule: hpqReduce.induct)
  case (1 source memo)
  then show ?case by simp
next
  case (2 source memo k m' matchers)
  then obtain v' where v': "run m' source = Inr v'"
    and rest: "hpqReduce source (memo(k \<mapsto> v')) matchers = Inr r"
    by (auto split: sum.splits)
  show ?case
  proof (cases "(key, m) = (k, m')")
    case True
    with "2.prems" v' have "v' = v" and "key \<notin> fst ` set matchers" by auto
    with hpqReduce_keeps [OF rest] True show ?thesis by simp
  next
    case False
    with "2.prems" "2.IH" [OF v' rest] show ?thesis by auto
  qed
qed

lemma hpqReduce_throws:
  "\<forall>(k, p) \<in> set pre. \<not> isl (run p source) \<Longrightarrow> run m source = Inl e \<Longrightarrow>
     hpqReduce source memo (pre @ (key, m) # post) = Inl e"
  by (induction pre arbitrary: memo) (auto split: sum.splits)

text \<open>
  \<open>trim\<close> cuts white space off both ends and nothing else: the text is the trimmed text
  between two runs of white space, and a non-empty trimmed text neither starts nor ends
  with white space.
\<close>

lemma trim_split:
  "\<exists>l r. s = l @ trim s @ r \<and> (\<forall>c \<in> set l. is_whitespace c) \<and> (\<forall>c \<in> set r. is_whitespace c)"
proof -
  let ?l = "takeWhile is_whitespace s"
  let ?m = "dropWhile is_whitespace s"
  let ?r = "rev (takeWhile is_whitespace (rev ?m))"
  have "rev ?m = takeWhile is_whitespace (rev ?m) @ dropWhile is_whitespace (rev ?m)"
    by simp
  then have "?m = trim s @ ?r"
    unfolding trim_def by (metis rev_append rev_rev_ident)
  then have "s = ?l @ trim s @ ?r"
    by (metis takeWhile_dropWhile_id)
  moreover have "\<forall>c \<in> set ?l. is_whitespace c"
    by (auto dest: set_takeWhileD)
  moreover have "\<forall>c \<in> set ?r. is_whitespace c"
    by (auto dest: set_takeWhileD)
  ultimately show ?thesis by blast
qed

lemma trim_ends:
  assumes "trim s \<noteq> []"
  shows "\<not> is_whitespace (hd (trim s)) \<and> \<not> is_whitespace (last (trim s))"
proof -
  let ?m = "dropWhile is_whitespace s"
  let ?d = "dropWhile is_whitespace (rev ?m)"
  from assms have d: "?d \<noteq> []" by (simp add: trim_def)
  have m: "?m \<noteq> []"
  proof
    assume "?m = []"
    with d show False by simp
  qed
  have last: "\<not> is_whitespace (last (trim s))"
    using d by (simp add: trim_def last_rev hd_dropWhile)
  have "hd ?m = hd (trim s)"
  proof -
    obtain r where "?m = trim s @ r"
      by (metis trim_def append_take_drop_id rev_append rev_rev_ident takeWhile_dropWhile_id)
    with assms show ?thesis by (metis hd_append2)
  qed
  moreover have "\<not> is_whitespace (hd ?m)"
    using m by (rule hd_dropWhile)
  ultimately show ?thesis using last by simp
qed

lemma dropWhile_all_Nil: "(\<forall>x \<in> set (dropWhile P xs). P x) \<longleftrightarrow> dropWhile P xs = []"
proof
  assume all: "\<forall>x \<in> set (dropWhile P xs). P x"
  show "dropWhile P xs = []"
  proof (rule ccontr)
    assume ne: "dropWhile P xs \<noteq> []"
    then have "\<not> P (hd (dropWhile P xs))" by (rule hd_dropWhile)
    moreover from ne have "hd (dropWhile P xs) \<in> set (dropWhile P xs)" by (rule hd_in_set)
    ultimately show False using all by blast
  qed
qed (auto dest: set_dropWhileD)

lemma trim_empty_iff: "trim s = [] \<longleftrightarrow> (\<forall>c \<in> set s. is_whitespace c)"
proof -
  have "trim s = [] \<longleftrightarrow> (\<forall>x \<in> set (dropWhile is_whitespace s). is_whitespace x)"
    by (simp add: trim_def)
  also have "\<dots> \<longleftrightarrow> dropWhile is_whitespace s = []"
    by (rule dropWhile_all_Nil)
  also have "\<dots> \<longleftrightarrow> (\<forall>c \<in> set s. is_whitespace c)"
    by simp
  finally show ?thesis .
qed

lemma trim_examples [simp]:
  "trim ''   '' = []" "trim ''hi'' = ''hi''" "trim ''x'' = ''x''" "trim ''y'' = ''y''"
  "trim ''  hi  '' = ''hi''"
  by (simp_all add: trim_def is_whitespace_def)

subsection \<open>Attribute extraction\<close>

lemma parseBlockAttributes_object:
  "attributes t = AttributesObject object \<Longrightarrow>
     parseBlockAttributes raw t = hpqParse raw (pickBy object wpBlocksKnownMatcher)"
  by (simp add: parseBlockAttributes_def)

lemma parseBlockAttributes_function_throws:
  "attributes t = AttributesFunction f \<Longrightarrow> f raw = Inl e \<Longrightarrow> parseBlockAttributes raw t = Inl e"
  by (simp add: parseBlockAttributes_def)

lemma parseBlockAttributes_matcher_throws:
  assumes "attributes t = AttributesObject (pre @ (key, m) # post)"
    and "wpBlocksKnownMatcher m \<and> \<not> refusedKey key" and "run m raw = Inl e"
    and "\<forall>(k, p) \<in> set pre. wpBlocksKnownMatcher p \<and> \<not> refusedKey k \<longrightarrow> \<not> isl (run p raw)"
  shows "parseBlockAttributes raw t = Inl e"
proof -
  let ?pre = "pickBy pre wpBlocksKnownMatcher" and ?post = "pickBy post wpBlocksKnownMatcher"
  have "pickBy (pre @ (key, m) # post) wpBlocksKnownMatcher = ?pre @ (key, m) # ?post"
    using assms(2) by (simp add: pickBy_def)
  moreover have "\<forall>(k, p) \<in> set ?pre. \<not> isl (run p raw)"
    using assms(4) by (auto simp: pickBy_def)
  ultimately show ?thesis
    using hpqReduce_throws [OF _ assms(3), of ?pre Map.empty key ?post]
      parseBlockAttributes_object [OF assms(1), of raw]
    by (simp add: hpqParse_def)
qed

text \<open>
  Claim C4. When the attribute specification of the block type is an object of entries,
  only entries with the known matcher marker reach hpq: \<open>known\<close> below, the marked
  entries that \<^verbatim>\<open>pickBy\<close> copies. The result is the same as for the specification with
  all other entries removed. Every key of a result is the key of a marked entry (exactly:
  of a marked entry that \<^verbatim>\<open>pickBy\<close> copies), with the value its matcher gives on the raw
  content; an entry without the marker contributes no key. The entries without the marker
  are not run, and dropping them is no error: when every matcher of \<open>known\<close> returns, so
  does the extraction, whatever another entry would do if it were called.
\<close>

theorem parseBlockAttributes_known_matchers_only:
  "attributes t = AttributesObject object \<Longrightarrow>
   known = filter (\<lambda>(key, m). wpBlocksKnownMatcher m \<and> \<not> refusedKey key) object \<Longrightarrow>
     parseBlockAttributes raw t = hpqParse raw known \<and>
     parseBlockAttributes raw t = parseBlockAttributes raw (t\<lparr>attributes := AttributesObject known\<rparr>) \<and>
     (\<forall>(key, m) \<in> set known. wpBlocksKnownMatcher m) \<and>
     (\<forall>extracted. parseBlockAttributes raw t = Inr extracted \<longrightarrow>
        dom extracted =
          {key. \<exists>m. (key, m) \<in> set object \<and> wpBlocksKnownMatcher m \<and> \<not> refusedKey key} \<and>
        dom extracted \<subseteq> {key. \<exists>m. (key, m) \<in> set object \<and> wpBlocksKnownMatcher m} \<and>
        (\<forall>key m. distinct (map fst object) \<and> (key, m) \<in> set object \<and>
           \<not> wpBlocksKnownMatcher m \<longrightarrow> extracted key = None) \<and>
        (\<forall>key m v. distinct (map fst object) \<and> (key, m) \<in> set object \<and>
           wpBlocksKnownMatcher m \<and> \<not> refusedKey key \<and> run m raw = Inr v \<longrightarrow>
             extracted key = Some v)) \<and>
     ((\<forall>(key, m) \<in> set object.
         wpBlocksKnownMatcher m \<and> \<not> refusedKey key \<longrightarrow> \<not> isl (run m raw)) \<longrightarrow>
        (\<exists>extracted. parseBlockAttributes raw t = Inr extracted))"
proof -
  assume t: "attributes t = AttributesObject object"
    and k: "known = filter (\<lambda>(key, m). wpBlocksKnownMatcher m \<and> \<not> refusedKey key) object"
  have p: "pickBy object wpBlocksKnownMatcher = known"
    by (simp add: k pickBy_def)
  have eq: "parseBlockAttributes raw t = hpqParse raw known"
    using parseBlockAttributes_object [OF t] p by simp
  have "pickBy known wpBlocksKnownMatcher = known"
    using pickBy_idem [of object wpBlocksKnownMatcher] p by simp
  then have same: "parseBlockAttributes raw t
      = parseBlockAttributes raw (t\<lparr>attributes := AttributesObject known\<rparr>)"
    using parseBlockAttributes_object [of "t\<lparr>attributes := AttributesObject known\<rparr>" known raw]
    by (simp add: eq)
  have marked: "\<forall>(key, m) \<in> set known. wpBlocksKnownMatcher m"
    by (auto simp: k)
  have keys: "fst ` set known =
      {key. \<exists>m. (key, m) \<in> set object \<and> wpBlocksKnownMatcher m \<and> \<not> refusedKey key}"
    by (force simp: k)
  have d: "distinct (map fst object) \<Longrightarrow> distinct (map fst known)"
    unfolding k by (rule distinct_map_filter)
  have res: "dom extracted =
          {key. \<exists>m. (key, m) \<in> set object \<and> wpBlocksKnownMatcher m \<and> \<not> refusedKey key} \<and>
        dom extracted \<subseteq> {key. \<exists>m. (key, m) \<in> set object \<and> wpBlocksKnownMatcher m} \<and>
        (\<forall>key m. distinct (map fst object) \<and> (key, m) \<in> set object \<and>
           \<not> wpBlocksKnownMatcher m \<longrightarrow> extracted key = None) \<and>
        (\<forall>key m v. distinct (map fst object) \<and> (key, m) \<in> set object \<and>
           wpBlocksKnownMatcher m \<and> \<not> refusedKey key \<and> run m raw = Inr v \<longrightarrow>
             extracted key = Some v)"
    if ex: "parseBlockAttributes raw t = Inr extracted" for extracted
  proof -
    from ex eq have h: "hpqReduce raw Map.empty known = Inr extracted"
      by (simp add: hpqParse_def)
    have dm: "dom extracted =
        {key. \<exists>m. (key, m) \<in> set object \<and> wpBlocksKnownMatcher m \<and> \<not> refusedKey key}"
      using hpqReduce_dom [OF h] keys by simp
    then have sub: "dom extracted \<subseteq> {key. \<exists>m. (key, m) \<in> set object \<and> wpBlocksKnownMatcher m}"
      by blast
    have unmarked: "extracted key = None"
      if "distinct (map fst object)" "(key, m) \<in> set object" "\<not> wpBlocksKnownMatcher m"
      for key m
    proof (rule ccontr)
      assume "extracted key \<noteq> None"
      then have "key \<in> dom extracted" by (simp add: dom_def)
      with sub obtain m' where m': "(key, m') \<in> set object" "wpBlocksKnownMatcher m'"
        by blast
      from that(1) that(2) m'(1) have "m' = m"
        by (meson eq_key_imp_eq_value)
      with m'(2) that(3) show False by simp
    qed
    have "extracted key = Some v"
      if "distinct (map fst object)" "(key, m) \<in> set object" "wpBlocksKnownMatcher m"
        "\<not> refusedKey key" "run m raw = Inr v" for key m v
    proof -
      from that(2,3,4) have "(key, m) \<in> set known" by (simp add: k)
      from hpqReduce_value [OF h d [OF that(1)] this that(5)] show ?thesis .
    qed
    with dm sub unmarked show ?thesis by blast
  qed
  have tot: "\<exists>extracted. parseBlockAttributes raw t = Inr extracted"
    if "\<forall>(key, m) \<in> set object.
          wpBlocksKnownMatcher m \<and> \<not> refusedKey key \<longrightarrow> \<not> isl (run m raw)"
  proof -
    from that have "\<forall>(key, m) \<in> set known. \<not> isl (run m raw)"
      by (auto simp: k)
    from hpqReduce_returns [OF this] show ?thesis
      by (simp add: eq hpqParse_def)
  qed
  from eq same marked res tot show ?thesis by blast
qed

text \<open>
  The instance P6 of the specification: of one marked rule and one plain function, only
  the marked rule's key is extracted; the plain function, which would throw, is not
  called. A second instance: a marked rule under the key \<open>constructor\<close> is not copied
  by \<^verbatim>\<open>pickBy\<close>, so it is not called either and gives no key.
\<close>

theorem parseBlockAttributes_known_matchers_only_witness:
  "parseBlockAttributes ''hi'' p6_type = Inr [''tagged'' \<mapsto> 2] \<and>
   parseBlockAttributes ''hi'' p6_type = hpqParse ''hi'' [hd p6_object] \<and>
   run (snd (p6_object ! 1)) ''hi'' = Inl ''not a matcher'' \<and>
   parseBlockAttributes ''hi'' refused_type = Inr [''tagged'' \<mapsto> 2] \<and>
   run (snd (hd refused_object)) ''hi'' = Inl ''not copied''"
proof -
  have a: "attributes p6_type = AttributesObject p6_object"
    by (simp add: p6_type_def)
  have k: "[hd p6_object]
      = filter (\<lambda>(key, m). wpBlocksKnownMatcher m \<and> \<not> refusedKey key) p6_object"
    by (simp add: p6_object_def refusedKey_def)
  have h: "hpqParse ''hi'' [hd p6_object] = Inr [''tagged'' \<mapsto> 2]"
    by (simp add: hpqParse_def p6_object_def numeral_2_eq_2)
  have a': "attributes refused_type = AttributesObject refused_object"
    by (simp add: refused_type_def)
  have k': "[refused_object ! 1]
      = filter (\<lambda>(key, m). wpBlocksKnownMatcher m \<and> \<not> refusedKey key) refused_object"
    by (simp add: refused_object_def refusedKey_def)
  have h': "hpqParse ''hi'' [refused_object ! 1] = Inr [''tagged'' \<mapsto> 2]"
    by (simp add: hpqParse_def refused_object_def numeral_2_eq_2)
  from parseBlockAttributes_known_matchers_only [OF a k, of "''hi''"] h
  have "parseBlockAttributes ''hi'' p6_type = Inr [''tagged'' \<mapsto> 2]"
    and "parseBlockAttributes ''hi'' p6_type = hpqParse ''hi'' [hd p6_object]"
    by simp_all
  moreover from parseBlockAttributes_known_matchers_only [OF a' k', of "''hi''"] h'
  have "parseBlockAttributes ''hi'' refused_type = Inr [''tagged'' \<mapsto> 2]"
    by simp
  ultimately show ?thesis
    by (simp add: p6_object_def refused_object_def)
qed

subsection \<open>Attribute resolution\<close>

lemma plain_attributes:
  "getBlockAttributes (Some plain_type) raw delim = Inr (spread delim)"
  by (simp add: getBlockAttributes_def parseBlockAttributes_def plain_type_def)

text \<open>
  Claim C1. For a present block type, every delimiter attribute mapping (absent or not)
  and every raw content, \<open>getBlockAttributes\<close> returns the merge of the three sources
  in ascending precedence: a key has the extracted value if the extraction gave one,
  else the value of the type's \<open>defaultAttributes\<close> if there is one, else the delimiter
  attributes' value. A value thrown by the extraction is passed on.
\<close>

theorem getBlockAttributes_precedence:
  "getBlockAttributes (Some t) raw delim =
     (case parseBlockAttributes raw t of
        Inl e \<Rightarrow> Inl e
      | Inr extracted \<Rightarrow>
          Inr (\<lambda>key. case extracted key of
                       Some v \<Rightarrow> Some v
                     | None \<Rightarrow> (case spread (defaultAttributes t) key of
                                   Some v \<Rightarrow> Some v
                                 | None \<Rightarrow> spread delim key)))"
  by (simp add: getBlockAttributes_def map_add_def fun_eq_iff split: sum.split option.split)

text \<open>
  The instance P2 of the specification: defaults \<open>{a: 1}\<close>, delimiter attributes
  \<open>{a: 2, b: 3}\<close> and an extractor returning \<open>{a: 4}\<close> resolve to \<open>{a: 4, b: 3}\<close>.
\<close>

theorem getBlockAttributes_precedence_witness:
  "getBlockAttributes (Some p2_type) ''text'' (Some [''a'' \<mapsto> 2, ''b'' \<mapsto> 3])
     = Inr [''a'' \<mapsto> 4, ''b'' \<mapsto> 3]"
  using getBlockAttributes_precedence [of p2_type "''text''" "Some [''a'' \<mapsto> 2, ''b'' \<mapsto> 3]"]
  by (simp add: p2_type_def parseBlockAttributes_def fun_eq_iff)

text \<open>
  Claim C5. With an absent block type, \<open>getBlockAttributes\<close> returns the delimiter
  attributes as they are, and the empty mapping when they are absent too; no block type
  is at hand, so neither defaults nor extraction take part. On the store the result is
  the argument's own address and the store is untouched; for an absent argument it is
  a new, empty object.
\<close>

theorem getBlockAttributes_absent_type:
  "getBlockAttributes None raw (Some a) = Inr a \<and>
   getBlockAttributes None raw None = Inr Map.empty \<and>
   getBlockAttributes_store None raw (Some r) h = (Inr r, h) \<and>
   getBlockAttributes_store None raw None h = (Inr (length h), h @ [Map.empty])"
  by (simp add: getBlockAttributes_def getBlockAttributes_store_def alloc_def)

text \<open>The store version, with the allocations and assignments carried out.\<close>

lemma getBlockAttributes_store_absent:
  "getBlockAttributes_store None raw delim h =
     (case delim of Some a \<Rightarrow> (Inr a, h) | None \<Rightarrow> (Inr (length h), h @ [Map.empty]))"
  by (simp add: getBlockAttributes_store_def alloc_def split: option.splits)

lemma getBlockAttributes_store_present:
  "getBlockAttributes_store (Some t) raw delim h =
     (let h0 = (case delim of Some a \<Rightarrow> h | None \<Rightarrow> h @ [Map.empty]);
          fresh = length h0;
          copied = (case delim of Some a \<Rightarrow> (h0 @ [Map.empty]) ! a | None \<Rightarrow> Map.empty)
                     ++ spread (defaultAttributes t)
      in case parseBlockAttributes raw t of
           Inl e \<Rightarrow> (Inl e, h0 @ [copied])
         | Inr extracted \<Rightarrow> (Inr fresh, h0 @ [copied ++ extracted]))"
  by (auto simp: getBlockAttributes_store_def alloc_def assign_def Let_def nth_append
        list_update_append split: option.splits sum.splits)

text \<open>
  Claim C10. \<open>getBlockAttributes\<close> does not change its delimiter attributes argument.
  For a call on a store \<open>h\<close> whose argument, if present, is an object of \<open>h\<close>: every
  object of \<open>h\<close> is in the resulting store with the properties it had, the argument among
  them; with a block type present the result is a new object, at an address that \<open>h\<close>
  does not have and hence not the argument; and the object returned holds the mapping
  that \<open>getBlockAttributes\<close> computes on values. This holds also when the extraction
  throws.
\<close>

theorem getBlockAttributes_store_frame:
  "getBlockAttributes_store btype raw delim h = (result, h') \<Longrightarrow>
   \<forall>a. delim = Some a \<longrightarrow> a < length h \<Longrightarrow>
     length h \<le> length h' \<and>
     (\<forall>i < length h. h' ! i = h ! i) \<and>
     (\<forall>a. delim = Some a \<longrightarrow> h' ! a = h ! a) \<and>
     (\<forall>r. btype \<noteq> None \<and> result = Inr r \<longrightarrow>
        length h \<le> r \<and> r < length h' \<and> delim \<noteq> Some r) \<and>
     (\<forall>r. result = Inr r \<longrightarrow>
        getBlockAttributes btype raw (map_option (\<lambda>a. h ! a) delim) = Inr (h' ! r)) \<and>
     (\<forall>e. result = Inl e \<longrightarrow>
        getBlockAttributes btype raw (map_option (\<lambda>a. h ! a) delim) = Inl e)"
proof (cases btype)
  case None
  assume "getBlockAttributes_store btype raw delim h = (result, h')"
    and "\<forall>a. delim = Some a \<longrightarrow> a < length h"
  then show ?thesis
    unfolding None getBlockAttributes_store_absent
    by (auto simp: getBlockAttributes_def nth_append split: option.splits)
next
  case (Some t)
  assume "getBlockAttributes_store btype raw delim h = (result, h')"
    and "\<forall>a. delim = Some a \<longrightarrow> a < length h"
  then show ?thesis
    unfolding Some getBlockAttributes_store_present
    by (auto simp: getBlockAttributes_def nth_append Let_def split: option.splits sum.splits)
qed

text \<open>
  The instance P2 on a store holding the delimiter attributes at address 0: the result is
  the new object at address 1, and the object at address 0 is as before.
\<close>

theorem getBlockAttributes_store_frame_witness:
  "getBlockAttributes_store (Some p2_type) ''text'' (Some 0) [[''a'' \<mapsto> 2, ''b'' \<mapsto> 3]]
     = (Inr 1, [[''a'' \<mapsto> 2, ''b'' \<mapsto> 3], [''a'' \<mapsto> 4, ''b'' \<mapsto> 3]])"
proof -
  let ?h = "[[''a'' \<mapsto> 2, ''b'' \<mapsto> 3 :: nat]]"
  obtain result h'
    where g: "getBlockAttributes_store (Some p2_type) ''text'' (Some 0) ?h = (result, h')"
    by (cases "getBlockAttributes_store (Some p2_type) ''text'' (Some 0) ?h") auto
  have v: "\<forall>a. Some (0::nat) = Some a \<longrightarrow> a < length ?h"
    by simp
  have e: "getBlockAttributes (Some p2_type) ''text'' (Some [''a'' \<mapsto> 2, ''b'' \<mapsto> 3])
      = Inr [''a'' \<mapsto> 4, ''b'' \<mapsto> 3]"
    by (simp add: getBlockAttributes_def p2_type_def parseBlockAttributes_def fun_eq_iff)
  have l: "length h' = 2" and r: "result = Inr 1"
    using g by (auto simp: getBlockAttributes_store_present Let_def p2_type_def
        parseBlockAttributes_def)
  from getBlockAttributes_store_frame [OF g v] e r
  have "h' ! 0 = ?h ! 0" and "h' ! 1 = [''a'' \<mapsto> 4, ''b'' \<mapsto> 3]"
    by simp_all
  with l have "h' = [[''a'' \<mapsto> 2, ''b'' \<mapsto> 3], [''a'' \<mapsto> 4, ''b'' \<mapsto> 3]]"
    by (cases h'; cases "tl h'") (auto simp: nth_Cons')
  with g r show ?thesis by simp
qed

subsection \<open>Type resolution\<close>

lemma resolveType_name:
  "resolveType reg name = (blockName, btype, lookups) \<Longrightarrow> btype = getBlockType reg blockName"
  by (auto simp: resolveType_def Let_def split: if_splits)

lemma resolveType_last:
  "resolveType reg name = (blockName, btype, lookups) \<Longrightarrow> last lookups = blockName"
  by (auto simp: resolveType_def Let_def split: if_splits)

lemma resolveType_falsy:
  "\<not> truthy name \<Longrightarrow> fst (resolveType reg name) = getUnknownTypeHandler reg"
  by (simp add: resolveType_def Let_def)

lemma resolveType_registered:
  "truthy name \<Longrightarrow> getBlockType reg name = Some t \<Longrightarrow>
     resolveType reg name = (name, Some t, [name])"
  by (simp add: resolveType_def Let_def)

lemma resolveType_unfold:
  "resolveType reg name = (blockName, btype, lookups) \<Longrightarrow>
   first = (if truthy name then name else getUnknownTypeHandler reg) \<Longrightarrow>
     (getBlockType reg first \<noteq> None \<longrightarrow>
        lookups = [first] \<and> blockName = first \<and> btype = getBlockType reg first) \<and>
     (getBlockType reg first = None \<longrightarrow>
        lookups = [first, getUnknownTypeHandler reg] \<and>
        blockName = getUnknownTypeHandler reg \<and>
        btype = getBlockType reg (getUnknownTypeHandler reg))"
  by (auto simp: resolveType_def Let_def split: if_splits)

lemma createBlockWithFallback_cases:
  "resolveType reg name = (blockName, btype, lookups) \<Longrightarrow>
     createBlockWithFallback reg name raw delim =
       (if btype = None \<or> (trim raw = [] \<and> blockName = getUnknownTypeHandler reg)
        then Inr None
        else (case getBlockAttributes btype (trim raw) delim of
                Inl e \<Rightarrow> Inl e
              | Inr a \<Rightarrow> Inr (Some (createBlock reg blockName a))))"
  by (auto simp: createBlockWithFallback_def)

lemma createBlockWithFallback_Some:
  assumes "createBlockWithFallback reg name raw delim = Inr (Some block)"
    and "resolveType reg name = (blockName, btype, lookups)"
  shows "\<exists>t a. btype = Some t \<and> getBlockType reg blockName = Some t \<and>
           (trim raw \<noteq> [] \<or> blockName \<noteq> getUnknownTypeHandler reg) \<and>
           getBlockAttributes (Some t) (trim raw) delim = Inr a \<and>
           block = createBlock reg blockName a"
  using assms(1) resolveType_name [OF assms(2)]
  unfolding createBlockWithFallback_cases [OF assms(2)]
  by (auto split: if_splits sum.splits)

lemma createBlockWithFallback_named:
  assumes "truthy name" and "getBlockType reg name = Some t"
    and "name \<noteq> getUnknownTypeHandler reg"
    and "getBlockAttributes (Some t) (trim raw) delim = Inr a"
  shows "createBlockWithFallback reg name raw delim = Inr (Some (createBlock reg name a))"
  using assms(3,4)
  unfolding createBlockWithFallback_cases [OF resolveType_registered [OF assms(1,2)]]
  by simp

lemma createBlockWithFallback_throws:
  assumes "resolveType reg name = (blockName, Some t, lookups)"
    and "trim raw \<noteq> [] \<or> blockName \<noteq> getUnknownTypeHandler reg"
    and "parseBlockAttributes (trim raw) t = Inl e"
  shows "createBlockWithFallback reg name raw delim = Inl e"
  using assms(2,3) unfolding createBlockWithFallback_cases [OF assms(1)]
  by (auto simp: getBlockAttributes_def)

text \<open>
  Claim C3. The registry is asked at most twice (\<open>lookups\<close> lists the names asked for).
  The first name asked for, \<open>first\<close>, is the declared name when it is present, else the
  name of the unknown type handler; present is the source's test \<^verbatim>\<open>name || ...\<close>, which
  takes a non-empty string. If that lookup finds a type, it is the result; if not, the
  handler's name is asked for once and the answer is the result, so with the handler's
  name unregistered too the type is absent and no block is made. A declared name that is
  present and registered is the resolved name, and a block made for it is constructed
  under that name.
\<close>

theorem resolveType_two_lookups:
  "resolveType reg name = (blockName, btype, lookups) \<Longrightarrow>
   first = (if truthy name then name else getUnknownTypeHandler reg) \<Longrightarrow>
     length lookups \<le> 2 \<and>
     (getBlockType reg first \<noteq> None \<longrightarrow>
        lookups = [first] \<and> blockName = first \<and> btype = getBlockType reg first) \<and>
     (getBlockType reg first = None \<longrightarrow>
        lookups = [first, getUnknownTypeHandler reg] \<and>
        blockName = getUnknownTypeHandler reg \<and>
        btype = getBlockType reg (getUnknownTypeHandler reg)) \<and>
     (getBlockType reg first = None \<and> getBlockType reg (getUnknownTypeHandler reg) = None \<longrightarrow>
        btype = None \<and> createBlockWithFallback reg name raw delim = Inr None) \<and>
     (truthy name \<and> getBlockType reg name \<noteq> None \<longrightarrow>
        blockName = name \<and> btype = getBlockType reg name \<and> lookups = [name] \<and>
        (\<forall>block. createBlockWithFallback reg name raw delim = Inr (Some block) \<longrightarrow>
           (\<exists>a. getBlockAttributes (getBlockType reg name) (trim raw) delim = Inr a \<and>
                block = createBlock reg name a)))"
proof -
  assume r: "resolveType reg name = (blockName, btype, lookups)"
    and f: "first = (if truthy name then name else getUnknownTypeHandler reg)"
  note u = resolveType_unfold [OF r f]
  have "length lookups \<le> 2"
    using u by (cases "getBlockType reg first = None") simp_all
  moreover have "getBlockType reg first = None \<and>
      getBlockType reg (getUnknownTypeHandler reg) = None \<longrightarrow>
        btype = None \<and> createBlockWithFallback reg name raw delim = Inr None"
    using u createBlockWithFallback_cases [OF r, of raw delim] by simp
  moreover have "truthy name \<and> getBlockType reg name \<noteq> None \<longrightarrow>
        blockName = name \<and> btype = getBlockType reg name \<and> lookups = [name] \<and>
        (\<forall>block. createBlockWithFallback reg name raw delim = Inr (Some block) \<longrightarrow>
           (\<exists>a. getBlockAttributes (getBlockType reg name) (trim raw) delim = Inr a \<and>
                block = createBlock reg name a))"
  proof (intro impI)
    assume a: "truthy name \<and> getBlockType reg name \<noteq> None"
    with f have "first = name" by simp
    with u a have n: "blockName = name" "btype = getBlockType reg name" "lookups = [name]"
      by simp_all
    have "\<exists>a. getBlockAttributes (getBlockType reg name) (trim raw) delim = Inr a \<and>
                block = createBlock reg name a"
      if "createBlockWithFallback reg name raw delim = Inr (Some block)" for block
      using createBlockWithFallback_Some [OF that r] n by auto
    with n show "blockName = name \<and> btype = getBlockType reg name \<and> lookups = [name] \<and>
        (\<forall>block. createBlockWithFallback reg name raw delim = Inr (Some block) \<longrightarrow>
           (\<exists>a. getBlockAttributes (getBlockType reg name) (trim raw) delim = Inr a \<and>
                block = createBlock reg name a))"
      by blast
  qed
  ultimately show ?thesis using u by blast
qed

text \<open>
  Instances: a registered name is found by one lookup; an unregistered name (P5) and an
  absent name resolve to the handler's name; without a handler an unregistered name
  resolves to no type after two lookups and gives no block.
\<close>

theorem resolveType_two_lookups_witness:
  "resolveType (scenario_registry []) (Some ''note'')
     = (Some ''note'', Some plain_type, [Some ''note'']) \<and>
   resolveType (scenario_registry []) (Some ''gallery'')
     = (Some ''freeform'', Some plain_type, [Some ''gallery'', Some ''freeform'']) \<and>
   resolveType (scenario_registry []) None
     = (Some ''freeform'', Some plain_type, [Some ''freeform'']) \<and>
   resolveType (bare_registry []) (Some ''gallery'') = (None, None, [Some ''gallery'', None]) \<and>
   createBlockWithFallback (bare_registry []) (Some ''gallery'') ''hi'' None = Inr None \<and>
   createBlockWithFallback (scenario_registry []) (Some ''note'') ''hi'' (Some [''pinned'' \<mapsto> 1])
     = Inr (Some (Some ''note'', [''pinned'' \<mapsto> 1]))"
proof -
  obtain n1 t1 l1 where r1: "resolveType (scenario_registry []) (Some ''note'') = (n1, t1, l1)"
    by (cases "resolveType (scenario_registry []) (Some ''note'')") auto
  obtain n2 t2 l2 where r2: "resolveType (scenario_registry []) (Some ''gallery'') = (n2, t2, l2)"
    by (cases "resolveType (scenario_registry []) (Some ''gallery'')") auto
  obtain n3 t3 l3 where r3: "resolveType (scenario_registry []) None = (n3, t3, l3)"
    by (cases "resolveType (scenario_registry []) None") auto
  obtain n4 t4 l4 where r4: "resolveType (bare_registry []) (Some ''gallery'') = (n4, t4, l4)"
    by (cases "resolveType (bare_registry []) (Some ''gallery'')") auto
  have c: "createBlockWithFallback (scenario_registry []) (Some ''note'') ''hi''
             (Some [''pinned'' \<mapsto> 1]) = Inr (Some (Some ''note'', [''pinned'' \<mapsto> 1]))"
    by (simp add: createBlockWithFallback_def resolveType_def Let_def scenario_registry_def
          scenario_types_def plain_attributes)
  have "n1 = Some ''note'' \<and> t1 = Some plain_type \<and> l1 = [Some ''note'']"
    using resolveType_two_lookups [OF r1 refl, of "''hi''" "Some [''pinned'' \<mapsto> 1]"]
    by (simp add: scenario_registry_def scenario_types_def)
  moreover have "n2 = Some ''freeform'' \<and> t2 = Some plain_type
      \<and> l2 = [Some ''gallery'', Some ''freeform'']"
    using resolveType_two_lookups [OF r2 refl, of "''hi''" None]
    by (simp add: scenario_registry_def scenario_types_def)
  moreover have "n3 = Some ''freeform'' \<and> t3 = Some plain_type \<and> l3 = [Some ''freeform'']"
    using resolveType_two_lookups [OF r3 refl, of "''hi''" None]
    by (simp add: scenario_registry_def scenario_types_def)
  moreover have "n4 = None \<and> t4 = None \<and> l4 = [Some ''gallery'', None] \<and>
      createBlockWithFallback (bare_registry []) (Some ''gallery'') ''hi'' None = Inr None"
    using resolveType_two_lookups [OF r4 refl, of "''hi''" None]
    by (simp add: bare_registry_def scenario_registry_def scenario_types_def)
  ultimately show ?thesis
    using r1 r2 r3 r4 c by simp
qed

subsection \<open>Construction\<close>

text \<open>
  Claim C7. For a node that is not suppressed (its type \<open>t\<close> is resolved, and its trimmed
  content is non-empty or its resolved name is not the handler's),
  \<open>createBlockWithFallback\<close> resolves the attributes from the trimmed raw content and
  returns what \<open>createBlock\<close> makes of the resolved name and the resolved attributes. It
  is the trimmed content that the extractor function or hpq with the known matchers
  receives; the trimmed content is the raw content without the white space at its two
  ends. A value thrown by the extraction is passed on instead.
\<close>

theorem createBlockWithFallback_trimmed:
  "resolveType reg name = (blockName, Some t, lookups) \<Longrightarrow>
   trim raw \<noteq> [] \<or> blockName \<noteq> getUnknownTypeHandler reg \<Longrightarrow>
     createBlockWithFallback reg name raw delim =
       (case getBlockAttributes (Some t) (trim raw) delim of
          Inl e \<Rightarrow> Inl e
        | Inr a \<Rightarrow> Inr (Some (createBlock reg blockName a))) \<and>
     createBlockWithFallback reg name raw delim =
       (case parseBlockAttributes (trim raw) t of
          Inl e \<Rightarrow> Inl e
        | Inr extracted \<Rightarrow>
            Inr (Some (createBlock reg blockName
                   (spread delim ++ spread (defaultAttributes t) ++ extracted)))) \<and>
     (\<forall>f. attributes t = AttributesFunction f \<longrightarrow>
        parseBlockAttributes (trim raw) t = f (trim raw)) \<and>
     (\<forall>object. attributes t = AttributesObject object \<longrightarrow>
        parseBlockAttributes (trim raw) t = hpqParse (trim raw) (pickBy object wpBlocksKnownMatcher)) \<and>
     (\<exists>l r. raw = l @ trim raw @ r \<and>
        (\<forall>c \<in> set l. is_whitespace c) \<and> (\<forall>c \<in> set r. is_whitespace c)) \<and>
     (trim raw \<noteq> [] \<longrightarrow> \<not> is_whitespace (hd (trim raw)) \<and> \<not> is_whitespace (last (trim raw)))"
proof -
  assume r: "resolveType reg name = (blockName, Some t, lookups)"
    and s: "trim raw \<noteq> [] \<or> blockName \<noteq> getUnknownTypeHandler reg"
  have c: "createBlockWithFallback reg name raw delim =
       (case getBlockAttributes (Some t) (trim raw) delim of
          Inl e \<Rightarrow> Inl e
        | Inr a \<Rightarrow> Inr (Some (createBlock reg blockName a)))"
    using s unfolding createBlockWithFallback_cases [OF r] by auto
  then have "createBlockWithFallback reg name raw delim =
       (case parseBlockAttributes (trim raw) t of
          Inl e \<Rightarrow> Inl e
        | Inr extracted \<Rightarrow>
            Inr (Some (createBlock reg blockName
                   (spread delim ++ spread (defaultAttributes t) ++ extracted))))"
    by (simp add: getBlockAttributes_def split: sum.splits)
  moreover have "\<forall>f. attributes t = AttributesFunction f \<longrightarrow>
        parseBlockAttributes (trim raw) t = f (trim raw)"
    by (simp add: parseBlockAttributes_def)
  moreover have "\<forall>object. attributes t = AttributesObject object \<longrightarrow>
        parseBlockAttributes (trim raw) t = hpqParse (trim raw) (pickBy object wpBlocksKnownMatcher)"
    by (simp add: parseBlockAttributes_def)
  moreover note c trim_split [of raw] trim_ends [of raw]
  ultimately show ?thesis by blast
qed

text \<open>
  An instance: the extractor of the type \<open>echo\<close> reports the length of what it is given;
  for the content \<open>"  hi  "\<close> it reports 2.
\<close>

theorem createBlockWithFallback_trimmed_witness:
  "createBlockWithFallback (scenario_registry []) (Some ''echo'') ''  hi  '' (Some [''pinned'' \<mapsto> 1])
     = Inr (Some (Some ''echo'', [''pinned'' \<mapsto> 1, ''length'' \<mapsto> 2])) \<and>
   trim ''  hi  '' = ''hi''"
proof -
  have r: "resolveType (scenario_registry []) (Some ''echo'')
      = (Some ''echo'', Some echo_type, [Some ''echo''])"
    by (simp add: resolveType_def Let_def scenario_registry_def scenario_types_def)
  have s: "trim ''  hi  '' \<noteq> [] \<or> Some ''echo'' \<noteq> getUnknownTypeHandler (scenario_registry [])"
    by simp
  have p: "parseBlockAttributes ''hi'' echo_type = Inr [''length'' \<mapsto> 2]"
    by (simp add: parseBlockAttributes_def echo_type_def numeral_2_eq_2)
  have d: "defaultAttributes echo_type = None"
    by (simp add: echo_type_def)
  have b: "createBlock (scenario_registry []) = Pair"
    by (simp add: scenario_registry_def)
  from createBlockWithFallback_trimmed [OF r s, of "Some [''pinned'' \<mapsto> 1]"]
  have "createBlockWithFallback (scenario_registry []) (Some ''echo'') ''  hi  ''
          (Some [''pinned'' \<mapsto> 1]) =
       (case parseBlockAttributes (trim ''  hi  '') echo_type of
          Inl e \<Rightarrow> Inl e
        | Inr extracted \<Rightarrow>
            Inr (Some (createBlock (scenario_registry []) (Some ''echo'')
                   (spread (Some [''pinned'' \<mapsto> 1]) ++ spread (defaultAttributes echo_type)
                      ++ extracted))))"
    by blast
  then show ?thesis
    by (simp add: p d b)
qed

subsection \<open>The reduction over the nodes\<close>

lemma reduce_returns:
  "\<forall>n \<in> set nodes. \<not> isl (nodeBlock reg n) \<Longrightarrow>
     reduce reg memo nodes =
       Inr (memo @ List.map_filter (\<lambda>n. case nodeBlock reg n of Inr b \<Rightarrow> b | Inl e \<Rightarrow> None) nodes)"
  by (induction nodes arbitrary: memo) (auto simp: List.map_filter_simps split: sum.splits option.splits)

lemma reduce_throws:
  "\<forall>p \<in> set before. \<not> isl (nodeBlock reg p) \<Longrightarrow> nodeBlock reg n = Inl e \<Longrightarrow>
     reduce reg memo (before @ n # rest) = Inl e"
  by (induction before arbitrary: memo) (auto split: sum.splits option.splits)

lemma reduce_Inr_all_return:
  "reduce reg memo nodes = Inr blocks \<Longrightarrow> \<forall>n \<in> set nodes. \<not> isl (nodeBlock reg n)"
  by (induction nodes arbitrary: memo) (auto split: sum.splits option.splits)

lemma reduce_blocks:
  "reduce reg memo nodes = Inr blocks \<Longrightarrow> block \<in> set blocks \<Longrightarrow>
     block \<in> set memo \<or> (\<exists>n \<in> set nodes. nodeBlock reg n = Inr (Some block))"
proof (induction nodes arbitrary: memo)
  case Nil
  then show ?case by simp
next
  case (Cons n nodes)
  show ?case
  proof (cases "nodeBlock reg n")
    case (Inl e)
    with Cons.prems show ?thesis by simp
  next
    case (Inr r)
    show ?thesis
    proof (cases r)
      case None
      with Inr Cons.prems Cons.IH [of memo] show ?thesis by auto
    next
      case (Some b)
      with Inr Cons.prems Cons.IH [of "memo @ [b]"] show ?thesis by auto
    qed
  qed
qed

lemma parseWithGrammar_nodes:
  "grammarParse reg content = Inr nodes \<Longrightarrow> parseWithGrammar reg content = reduce reg [] nodes"
  by (simp add: parseWithGrammar_def)

lemma parseWithGrammar_Inr:
  "parseWithGrammar reg content = Inr blocks \<Longrightarrow>
     \<exists>nodes. grammarParse reg content = Inr nodes \<and> reduce reg [] nodes = Inr blocks"
  by (auto simp: parseWithGrammar_def split: sum.splits)

lemma note_block:
  "nodeBlock (scenario_registry ns) \<lparr>blockType = Some ''note'', rawContent = ''hi'', attrs = None\<rparr>
     = Inr (Some (Some ''note'', Map.empty))"
  by (simp add: nodeBlock_def createBlockWithFallback_def resolveType_def Let_def
        scenario_registry_def scenario_types_def plain_attributes)

lemma mixed_blocks:
  "map (nodeBlock (scenario_registry ns)) mixed_nodes =
     [Inr (Some (Some ''note'', [''pinned'' \<mapsto> 1])), Inr None,
      Inr (Some (Some ''freeform'', Map.empty)), Inr (Some (Some ''note'', Map.empty))]"
  by (simp add: mixed_nodes_def nodeBlock_def createBlockWithFallback_def resolveType_def Let_def
        scenario_registry_def scenario_types_def plain_attributes trim_def is_whitespace_def)

lemma mixed_parse:
  "parseWithGrammar (scenario_registry mixed_nodes) ''document'' =
     Inr [(Some ''note'', [''pinned'' \<mapsto> 1]), (Some ''freeform'', Map.empty),
          (Some ''note'', Map.empty)]"
proof -
  have "\<forall>n \<in> set mixed_nodes. \<not> isl (nodeBlock (scenario_registry mixed_nodes) n)"
    using mixed_blocks [of mixed_nodes] by (simp add: mixed_nodes_def)
  from reduce_returns [OF this, of "[]"] mixed_blocks [of mixed_nodes] show ?thesis
    by (simp add: parseWithGrammar_def scenario_registry_def mixed_nodes_def
          List.map_filter_simps)
qed

subsection \<open>Suppression\<close>

lemma nodeBlock_blank_freeform:
  assumes "\<not> truthy (blockType n)" and "\<forall>c \<in> set (rawContent n). is_whitespace c"
  shows "nodeBlock reg n = Inr None"
proof -
  obtain blockName btype lookups
    where r: "resolveType reg (blockType n) = (blockName, btype, lookups)"
    by (cases "resolveType reg (blockType n)") auto
  with resolveType_falsy [OF assms(1), of reg] have "blockName = getUnknownTypeHandler reg"
    by simp
  moreover from assms(2) have "trim (rawContent n) = []"
    by (simp add: trim_empty_iff)
  ultimately show ?thesis
    unfolding nodeBlock_def createBlockWithFallback_cases [OF r] by simp
qed

lemma parseWithGrammar_blank_freeform:
  assumes "grammarParse reg content = Inr nodes"
    and "\<forall>n \<in> set nodes. \<not> truthy (blockType n) \<and> (\<forall>c \<in> set (rawContent n). is_whitespace c)"
  shows "parseWithGrammar reg content = Inr []"
proof -
  have none: "\<forall>n \<in> set nodes. nodeBlock reg n = Inr None"
    using assms(2) by (simp add: nodeBlock_blank_freeform)
  then have "\<forall>n \<in> set nodes. \<not> isl (nodeBlock reg n)" by simp
  from reduce_returns [OF this, of "[]"] none
  have "reduce reg [] nodes = Inr []"
    by (simp add: List.map_filter_def filter_empty_conv)
  with assms(1) show ?thesis by (simp add: parseWithGrammar_def)
qed

text \<open>
  Claim C2. With \<open>blockName\<close> and \<open>btype\<close> the resolved name and type,
  \<open>createBlockWithFallback\<close> returns no block exactly when the type is absent, or the
  trimmed raw content is empty and the resolved name is the name of the unknown type
  handler. In every other case it resolves the attributes and returns the one block that
  \<open>createBlock\<close> makes, unless the extraction throws. So a document whose nodes are
  freeform spans of white space gives the empty block list, whatever is registered; and
  a section with a registered name other than the handler's gives a block whether its
  content is empty or not.
\<close>

theorem createBlockWithFallback_null_iff:
  "resolveType reg name = (blockName, btype, lookups) \<Longrightarrow>
     (createBlockWithFallback reg name raw delim = Inr None \<longleftrightarrow>
        btype = None \<or> (trim raw = [] \<and> blockName = getUnknownTypeHandler reg)) \<and>
     (\<not> (btype = None \<or> (trim raw = [] \<and> blockName = getUnknownTypeHandler reg)) \<longrightarrow>
        createBlockWithFallback reg name raw delim =
          (case getBlockAttributes btype (trim raw) delim of
             Inl e \<Rightarrow> Inl e
           | Inr a \<Rightarrow> Inr (Some (createBlock reg blockName a)))) \<and>
     (grammarParse reg content = Inr nodes \<and>
      (\<forall>n \<in> set nodes. \<not> truthy (blockType n) \<and> (\<forall>c \<in> set (rawContent n). is_whitespace c)) \<longrightarrow>
        parseWithGrammar reg content = Inr []) \<and>
     (truthy name \<and> getBlockType reg name = Some t \<and> name \<noteq> getUnknownTypeHandler reg \<and>
      getBlockAttributes (Some t) (trim raw) delim = Inr a \<longrightarrow>
        createBlockWithFallback reg name raw delim = Inr (Some (createBlock reg name a)))"
proof (intro conjI impI)
  assume r: "resolveType reg name = (blockName, btype, lookups)"
  show "createBlockWithFallback reg name raw delim = Inr None \<longleftrightarrow>
        btype = None \<or> (trim raw = [] \<and> blockName = getUnknownTypeHandler reg)"
    unfolding createBlockWithFallback_cases [OF r] by (simp split: sum.splits)
next
  assume r: "resolveType reg name = (blockName, btype, lookups)"
    and "\<not> (btype = None \<or> (trim raw = [] \<and> blockName = getUnknownTypeHandler reg))"
  then show "createBlockWithFallback reg name raw delim =
          (case getBlockAttributes btype (trim raw) delim of
             Inl e \<Rightarrow> Inl e
           | Inr a \<Rightarrow> Inr (Some (createBlock reg blockName a)))"
    unfolding createBlockWithFallback_cases [OF r] by auto
next
  assume a: "grammarParse reg content = Inr nodes \<and>
      (\<forall>n \<in> set nodes. \<not> truthy (blockType n) \<and> (\<forall>c \<in> set (rawContent n). is_whitespace c))"
  show "parseWithGrammar reg content = Inr []"
    by (rule parseWithGrammar_blank_freeform [of reg content nodes]) (simp_all add: a)
next
  assume a: "truthy name \<and> getBlockType reg name = Some t \<and> name \<noteq> getUnknownTypeHandler reg \<and>
      getBlockAttributes (Some t) (trim raw) delim = Inr a"
  show "createBlockWithFallback reg name raw delim = Inr (Some (createBlock reg name a))"
    by (rule createBlockWithFallback_named [of name reg t]) (simp_all add: a)
qed

text \<open>
  Instances, with the handler \<open>freeform\<close>: the document of three spaces, and only the
  handler's type registered, gives no block and the empty list; an empty section named
  \<open>note\<close> gives a block (P4); an empty section named \<open>freeform\<close> gives none; a section of
  an unregistered name with content gives a block under the handler's name (P5).
\<close>

theorem createBlockWithFallback_null_iff_witness:
  "createBlockWithFallback (fallback_only_registry []) None ''   '' (Some Map.empty) = Inr None \<and>
   parseWithGrammar
     (fallback_only_registry [\<lparr>blockType = None, rawContent = ''   '', attrs = Some Map.empty\<rparr>])
     ''   '' = Inr [] \<and>
   createBlockWithFallback (scenario_registry []) (Some ''note'') '''' (Some Map.empty)
     = Inr (Some (Some ''note'', Map.empty)) \<and>
   createBlockWithFallback (scenario_registry []) (Some ''freeform'') '''' (Some Map.empty)
     = Inr None \<and>
   createBlockWithFallback (scenario_registry []) (Some ''gallery'') ''hi'' (Some [''pinned'' \<mapsto> 1])
     = Inr (Some (Some ''freeform'', [''pinned'' \<mapsto> 1]))"
proof -
  let ?blank = "\<lparr>blockType = None, rawContent = ''   '', attrs = Some (Map.empty :: nat attrs)\<rparr>"
  have r1: "resolveType (fallback_only_registry [?blank]) None
              = (Some ''freeform'', Some plain_type, [Some ''freeform''])"
    by (simp add: resolveType_def Let_def fallback_only_registry_def)
  have r0: "resolveType (fallback_only_registry []) None
              = (Some ''freeform'', Some plain_type, [Some ''freeform''])"
    by (simp add: resolveType_def Let_def fallback_only_registry_def)
  have r2: "resolveType (scenario_registry []) (Some ''note'')
              = (Some ''note'', Some plain_type, [Some ''note''])"
    by (simp add: resolveType_def Let_def scenario_registry_def scenario_types_def)
  have r3: "resolveType (scenario_registry []) (Some ''freeform'')
              = (Some ''freeform'', Some plain_type, [Some ''freeform''])"
    by (simp add: resolveType_def Let_def scenario_registry_def scenario_types_def)
  have r4: "resolveType (scenario_registry []) (Some ''gallery'')
              = (Some ''freeform'', Some plain_type, [Some ''gallery'', Some ''freeform''])"
    by (simp add: resolveType_def Let_def scenario_registry_def scenario_types_def)
  show ?thesis
    using createBlockWithFallback_null_iff [OF r0, of "''   ''" "Some Map.empty"]
      createBlockWithFallback_null_iff [OF r1, of _ _ "''   ''" "[?blank]"]
      createBlockWithFallback_null_iff [OF r2, of "''''" "Some Map.empty"]
      createBlockWithFallback_null_iff [OF r3, of "''''" "Some Map.empty"]
      createBlockWithFallback_null_iff [OF r4, of "''hi''" "Some [''pinned'' \<mapsto> 1]"]
    by (simp add: plain_attributes fallback_only_registry_def scenario_registry_def
          is_whitespace_def trim_def)
qed

subsection \<open>The block list\<close>

text \<open>
  Claim C6. \<open>parseWithGrammar\<close> maps and filters the grammar's nodes. With \<open>block_of\<close>
  the block that the callback gets for a node, if any: when no node's processing throws,
  the result is the list of the blocks of the nodes that have one, in the order of the
  nodes; and every returned list is that list, with one entry for each such node and
  none for the others.
\<close>

theorem parseWithGrammar_map_filter:
  "grammarParse reg content = Inr nodes \<Longrightarrow>
   block_of = (\<lambda>n. case nodeBlock reg n of Inr block \<Rightarrow> block | Inl e \<Rightarrow> None) \<Longrightarrow>
     ((\<forall>n \<in> set nodes. \<not> isl (nodeBlock reg n)) \<longrightarrow>
        parseWithGrammar reg content = Inr (List.map_filter block_of nodes)) \<and>
     (\<forall>blocks. parseWithGrammar reg content = Inr blocks \<longrightarrow>
        blocks = map (\<lambda>n. the (block_of n)) (filter (\<lambda>n. block_of n \<noteq> None) nodes) \<and>
        length blocks = length (filter (\<lambda>n. block_of n \<noteq> None) nodes))"
proof -
  assume g: "grammarParse reg content = Inr nodes"
    and b: "block_of = (\<lambda>n. case nodeBlock reg n of Inr block \<Rightarrow> block | Inl e \<Rightarrow> None)"
  have ret: "parseWithGrammar reg content = Inr (List.map_filter block_of nodes)"
    if "\<forall>n \<in> set nodes. \<not> isl (nodeBlock reg n)"
    using reduce_returns [OF that, of "[]"] parseWithGrammar_nodes [OF g] b by simp
  have "blocks = map (\<lambda>n. the (block_of n)) (filter (\<lambda>n. block_of n \<noteq> None) nodes) \<and>
        length blocks = length (filter (\<lambda>n. block_of n \<noteq> None) nodes)"
    if p: "parseWithGrammar reg content = Inr blocks" for blocks
  proof -
    from p parseWithGrammar_nodes [OF g] have "reduce reg [] nodes = Inr blocks" by simp
    from reduce_Inr_all_return [OF this] have "\<forall>n \<in> set nodes. \<not> isl (nodeBlock reg n)" .
    from ret [OF this] p have "blocks = List.map_filter block_of nodes" by simp
    then show ?thesis by (simp add: List.map_filter_def comp_def)
  qed
  with ret show ?thesis by blast
qed

text \<open>
  An instance: of the four nodes of \<open>mixed_nodes\<close> the blank freeform span is dropped
  and the other three give their blocks in order.
\<close>

theorem parseWithGrammar_map_filter_witness:
  "parseWithGrammar (scenario_registry mixed_nodes) ''document'' =
     Inr [(Some ''note'', [''pinned'' \<mapsto> 1]), (Some ''freeform'', Map.empty),
          (Some ''note'', Map.empty)]"
proof -
  let ?reg = "scenario_registry mixed_nodes"
  have g: "grammarParse ?reg ''document'' = Inr mixed_nodes"
    by (simp add: scenario_registry_def)
  have "\<forall>n \<in> set mixed_nodes. \<not> isl (nodeBlock ?reg n)"
    using mixed_blocks [of mixed_nodes] by (simp add: mixed_nodes_def)
  with parseWithGrammar_map_filter [OF g refl]
  have "parseWithGrammar ?reg ''document'' =
      Inr (List.map_filter (\<lambda>n. case nodeBlock ?reg n of Inr block \<Rightarrow> block | Inl e \<Rightarrow> None)
             mixed_nodes)"
    by blast
  also have "\<dots> = Inr [(Some ''note'', [''pinned'' \<mapsto> 1]), (Some ''freeform'', Map.empty),
          (Some ''note'', Map.empty)]"
    using mixed_blocks [of mixed_nodes] by (simp add: mixed_nodes_def List.map_filter_simps)
  finally show ?thesis .
qed

text \<open>
  Claim C9. Every block that \<open>parseWithGrammar\<close> returns was made for a node of the
  grammar's output by \<open>createBlock\<close>, from a name \<open>blockName\<close> and the attributes resolved
  for the node, where \<open>blockName\<close> is the name of the last registry lookup of the node's
  resolution and that lookup returned the type \<open>t\<close>: no block is made under a name for
  which the registry has no type.
\<close>

theorem parseWithGrammar_registered_names:
  "parseWithGrammar reg content = Inr blocks \<Longrightarrow> block \<in> set blocks \<Longrightarrow>
     \<exists>nodes n blockName t lookups a.
        grammarParse reg content = Inr nodes \<and> n \<in> set nodes \<and>
        resolveType reg (blockType n) = (blockName, Some t, lookups) \<and>
        last lookups = blockName \<and> getBlockType reg blockName = Some t \<and>
        getBlockAttributes (Some t) (trim (rawContent n)) (attrs n) = Inr a \<and>
        block = createBlock reg blockName a"
proof -
  assume p: "parseWithGrammar reg content = Inr blocks" and b: "block \<in> set blocks"
  from parseWithGrammar_Inr [OF p] obtain nodes
    where g: "grammarParse reg content = Inr nodes" and r: "reduce reg [] nodes = Inr blocks"
    by blast
  from reduce_blocks [OF r b] obtain n
    where n: "n \<in> set nodes" and nb: "nodeBlock reg n = Inr (Some block)"
    by auto
  obtain blockName btype lookups
    where rt: "resolveType reg (blockType n) = (blockName, btype, lookups)"
    by (cases "resolveType reg (blockType n)") auto
  from nb have "createBlockWithFallback reg (blockType n) (rawContent n) (attrs n)
      = Inr (Some block)"
    by (simp add: nodeBlock_def)
  from createBlockWithFallback_Some [OF this rt] obtain t a
    where "btype = Some t" "getBlockType reg blockName = Some t"
      "getBlockAttributes (Some t) (trim (rawContent n)) (attrs n) = Inr a"
      "block = createBlock reg blockName a"
    by blast
  with g n rt resolveType_last [OF rt] show ?thesis by blast
qed

text \<open>
  An instance, with blocks as pairs of name and attributes: the block for the section of
  the unregistered name \<open>gallery\<close> is in the list under the name \<open>freeform\<close>, which is
  registered.
\<close>

theorem parseWithGrammar_registered_names_witness:
  "(\<exists>t. getBlockType (scenario_registry mixed_nodes) (Some ''freeform'') = Some t) \<and>
   (Some ''freeform'', Map.empty)
      \<in> set (projr (parseWithGrammar (scenario_registry mixed_nodes) ''document'')) \<and>
   getBlockType (scenario_registry mixed_nodes) (Some ''gallery'') = None"
proof -
  let ?reg = "scenario_registry mixed_nodes"
  let ?block = "(Some ''freeform'', Map.empty :: nat attrs)"
  have b: "?block \<in> set [(Some ''note'', [''pinned'' \<mapsto> 1]), ?block, (Some ''note'', Map.empty)]"
    by simp
  from parseWithGrammar_registered_names [OF mixed_parse b]
  obtain blockName t a
    where "getBlockType ?reg blockName = Some t" and "?block = createBlock ?reg blockName a"
    by blast
  moreover have "createBlock ?reg = Pair"
    by (simp add: scenario_registry_def)
  ultimately have "\<exists>t. getBlockType ?reg (Some ''freeform'') = Some t"
    by auto
  then show ?thesis
    using mixed_parse by (simp add: scenario_registry_def scenario_types_def)
qed

subsection \<open>Failure\<close>

text \<open>
  Claim C8. \<open>parseWithGrammar\<close> returns either a block list or a thrown value, never
  both. A value thrown by the grammar is the result. A value thrown while a node is
  processed, the nodes before it having been processed without a throw, is the result,
  and the blocks made for those nodes are not returned; if the processing of any node
  throws, the result is a thrown value. The processing of a node that is not suppressed
  throws what the extraction from its trimmed content throws, and the extraction throws
  what the extractor function throws, or what the first known matcher to throw throws
  (of the matchers that \<^verbatim>\<open>pickBy\<close> copies: the others are not run).
\<close>

theorem parseWithGrammar_propagates:
  "(grammarParse reg content = Inl e \<longrightarrow> parseWithGrammar reg content = Inl e) \<and>
   (grammarParse reg content = Inr (before @ n # rest) \<and>
    (\<forall>p \<in> set before. \<not> isl (nodeBlock reg p)) \<and> nodeBlock reg n = Inl e \<longrightarrow>
      parseWithGrammar reg content = Inl e) \<and>
   (grammarParse reg content = Inr nodes \<and> n \<in> set nodes \<and> isl (nodeBlock reg n) \<longrightarrow>
      isl (parseWithGrammar reg content)) \<and>
   (resolveType reg (blockType n) = (blockName, Some t, lookups) \<and>
    (trim (rawContent n) \<noteq> [] \<or> blockName \<noteq> getUnknownTypeHandler reg) \<and>
    parseBlockAttributes (trim (rawContent n)) t = Inl e \<longrightarrow>
      nodeBlock reg n = Inl e) \<and>
   (attributes t = AttributesFunction f \<and> f raw = Inl e \<longrightarrow>
      parseBlockAttributes raw t = Inl e) \<and>
   (attributes t = AttributesObject (pre @ (key, m) # post) \<and>
    wpBlocksKnownMatcher m \<and> \<not> refusedKey key \<and> run m raw = Inl e \<and>
    (\<forall>(k, p) \<in> set pre. wpBlocksKnownMatcher p \<and> \<not> refusedKey k \<longrightarrow> \<not> isl (run p raw)) \<longrightarrow>
      parseBlockAttributes raw t = Inl e)"
proof (intro conjI impI)
  assume "grammarParse reg content = Inl e"
  then show "parseWithGrammar reg content = Inl e"
    by (simp add: parseWithGrammar_def)
next
  assume a: "grammarParse reg content = Inr (before @ n # rest) \<and>
    (\<forall>p \<in> set before. \<not> isl (nodeBlock reg p)) \<and> nodeBlock reg n = Inl e"
  then have b: "\<forall>p \<in> set before. \<not> isl (nodeBlock reg p)" and c: "nodeBlock reg n = Inl e"
    by simp_all
  have "reduce reg [] (before @ n # rest) = Inl e"
    using b c by (rule reduce_throws)
  with a show "parseWithGrammar reg content = Inl e"
    by (simp add: parseWithGrammar_def)
next
  assume a: "grammarParse reg content = Inr nodes \<and> n \<in> set nodes \<and> isl (nodeBlock reg n)"
  show "isl (parseWithGrammar reg content)"
  proof (cases "parseWithGrammar reg content")
    case (Inr blocks)
    with a parseWithGrammar_nodes [of reg content nodes]
    have "reduce reg [] nodes = Inr blocks" by simp
    from reduce_Inr_all_return [OF this] a show ?thesis by blast
  qed simp
next
  assume a: "resolveType reg (blockType n) = (blockName, Some t, lookups) \<and>
    (trim (rawContent n) \<noteq> [] \<or> blockName \<noteq> getUnknownTypeHandler reg) \<and>
    parseBlockAttributes (trim (rawContent n)) t = Inl e"
  show "nodeBlock reg n = Inl e"
    unfolding nodeBlock_def
    using a by (intro createBlockWithFallback_throws [of reg _ blockName t lookups]) blast+
next
  assume "attributes t = AttributesFunction f \<and> f raw = Inl e"
  then show "parseBlockAttributes raw t = Inl e"
    by (simp add: parseBlockAttributes_function_throws)
next
  assume a: "attributes t = AttributesObject (pre @ (key, m) # post) \<and>
    wpBlocksKnownMatcher m \<and> \<not> refusedKey key \<and> run m raw = Inl e \<and>
    (\<forall>(k, p) \<in> set pre. wpBlocksKnownMatcher p \<and> \<not> refusedKey k \<longrightarrow> \<not> isl (run p raw))"
  show "parseBlockAttributes raw t = Inl e"
    by (rule parseBlockAttributes_matcher_throws [of t pre key m post]) (simp_all add: a)
qed

text \<open>
  Instances: a document that the grammar rejects; a section whose extractor throws,
  after a section that gave a block and before another; a section whose second matcher
  throws. Each time the result is the thrown value and no block.
\<close>

theorem parseWithGrammar_propagates_witness:
  "parseWithGrammar rejecting_registry ''<!--'' = Inl ''syntax error'' \<and>
   parseWithGrammar (scenario_registry brittle_nodes) ''document'' = Inl ''extractor failed'' \<and>
   parseWithGrammar (scenario_registry failing_nodes) ''document'' = Inl ''matcher failed''"
proof -
  let ?note = "\<lparr>blockType = Some ''note'', rawContent = ''hi'', attrs = None :: nat attrs option\<rparr>"
  let ?brittle = "\<lparr>blockType = Some ''brittle'', rawContent = ''x'', attrs = None :: nat attrs option\<rparr>"
  let ?failing = "\<lparr>blockType = Some ''failing'', rawContent = ''x'', attrs = None :: nat attrs option\<rparr>"
  let ?rest = "[\<lparr>blockType = Some ''note'', rawContent = ''y'', attrs = None :: nat attrs option\<rparr>]"
  have "grammarParse rejecting_registry ''<!--'' = Inl ''syntax error''"
    by (simp add: rejecting_registry_def scenario_registry_def)
  with parseWithGrammar_propagates [where reg = rejecting_registry and content = "''<!--''"
      and e = "''syntax error''"]
  have w1: "parseWithGrammar rejecting_registry ''<!--'' = Inl ''syntax error''"
    by blast
  let ?B = "scenario_registry brittle_nodes"
  note b = parseWithGrammar_propagates [where reg = ?B and content = "''document''"
      and e = "''extractor failed''" and before = "[?note]" and n = ?brittle and rest = ?rest
      and blockName = "Some ''brittle''" and t = brittle_type and lookups = "[Some ''brittle'']"
      and f = "\<lambda>raw. Inl ''extractor failed''" and raw = "''x''"]
  have "attributes brittle_type = AttributesFunction (\<lambda>raw. Inl ''extractor failed'')"
    by (simp add: brittle_type_def)
  with b have "parseBlockAttributes ''x'' brittle_type = Inl ''extractor failed''"
    by blast
  moreover have "resolveType ?B (blockType ?brittle)
      = (Some ''brittle'', Some brittle_type, [Some ''brittle''])"
    by (simp add: resolveType_def Let_def scenario_registry_def scenario_types_def)
  ultimately have "nodeBlock ?B ?brittle = Inl ''extractor failed''"
    using b by simp
  moreover have "grammarParse ?B ''document'' = Inr ([?note] @ ?brittle # ?rest)"
    by (simp add: scenario_registry_def brittle_nodes_def)
  moreover have "\<forall>p \<in> set [?note]. \<not> isl (nodeBlock ?B p)"
    by (simp add: note_block)
  ultimately have w2: "parseWithGrammar ?B ''document'' = Inl ''extractor failed''"
    using b by blast
  let ?F = "scenario_registry failing_nodes"
  note f = parseWithGrammar_propagates [where reg = ?F and content = "''document''"
      and e = "''matcher failed''" and before = "[?note]" and n = ?failing and rest = "[]"
      and blockName = "Some ''failing''" and t = failing_type and lookups = "[Some ''failing'']"
      and pre = "[hd failing_object]" and key = "''second''" and m = "snd (failing_object ! 1)"
      and post = "[]" and raw = "''x''"]
  have "attributes failing_type
      = AttributesObject ([hd failing_object] @ (''second'', snd (failing_object ! 1)) # [])"
    by (simp add: failing_type_def failing_object_def)
  moreover have "wpBlocksKnownMatcher (snd (failing_object ! 1))"
    and "\<not> refusedKey ''second''"
    and "run (snd (failing_object ! 1)) ''x'' = Inl ''matcher failed''"
    and "\<forall>(k, p) \<in> set [hd failing_object].
           wpBlocksKnownMatcher p \<and> \<not> refusedKey k \<longrightarrow> \<not> isl (run p ''x'')"
    by (simp_all add: failing_object_def refusedKey_def)
  ultimately have "parseBlockAttributes ''x'' failing_type = Inl ''matcher failed''"
    using f by blast
  moreover have "resolveType ?F (blockType ?failing)
      = (Some ''failing'', Some failing_type, [Some ''failing''])"
    by (simp add: resolveType_def Let_def scenario_registry_def scenario_types_def)
  ultimately have "nodeBlock ?F ?failing = Inl ''matcher failed''"
    using f by simp
  moreover have "grammarParse ?F ''document'' = Inr ([?note] @ ?failing # [])"
    by (simp add: scenario_registry_def failing_nodes_def)
  moreover have "\<forall>p \<in> set [?note]. \<not> isl (nodeBlock ?F p)"
    by (simp add: note_block)
  ultimately have w3: "parseWithGrammar ?F ''document'' = Inl ''matcher failed''"
    using f by blast
  from w1 w2 w3 show ?thesis by simp
qed

end
